theory Spec2Isabelle
  imports Main
begin

section \<open>Values, response codes and exceptions\<close>

text \<open>
  The program is Python 2: byte strings and text are both \<open>str\<close>, modelled as
  \<open>string\<close>. \<open>pyval\<close> is the universe of values a codec can produce or accept
  (floating point numbers are left out).
\<close>

type_synonym bytes = string

datatype pyval =
    PNone
  | PBool bool
  | PInt int
  | PStr string
  | PList "pyval list"
  | PDict "(pyval \<times> pyval) list"

text \<open>
  Modelled from the spec: the module \<open>response_codes\<close> is not among the sources. It is
  a closed enumeration with at least the five codes the dispatcher names, plus the two
  codes for failures reported by a handler.
\<close>

datatype response_code =
    SUCCESS
  | MALFORMED_REQUEST
  | METHOD_NOT_FOUND
  | VERSION_NOT_FOUND
  | UNEXPECTED_DISPATCH_EXCEPTION
  | REMOTE_EXEC_ERROR
  | REMOTE_UNHANDLED_EXCEPTION

text \<open>
  A built-in exception, or one of a class that a handler defines, is modelled by its
  class and by what \<open>str\<close> does with it. \<open>ValueError\<close>, \<open>TypeError\<close>,
  \<open>KeyError\<close> and \<open>AttributeError\<close> stand for these classes and their subclasses,
  \<open>Exception\<close> for every other class below \<open>Exception\<close>; \<open>SystemExit\<close> and
  \<open>KeyboardInterrupt\<close> derive from \<open>BaseException\<close> only.
\<close>

datatype builtin_class =
    SystemExit
  | KeyboardInterrupt
  | Exception
  | ValueError
  | TypeError
  | KeyError
  | AttributeError

text \<open>
  Modelled from the spec: \<open>DispatchHandlerException\<close> and
  \<open>HandlerNotCallableException\<close> are imported by \<open>server.py\<close> but are not defined
  in the sources; the first is built from a response code and exposes it as \<open>code\<close>,
  the second is built without arguments. The other constructors are the classes of
  \<open>exceptions.py\<close>, all below \<open>ConeyException(Exception)\<close>, each with the arguments
  of its constructor, which are byte strings. \<open>PyError c txt\<close> is an exception of
  class \<open>c\<close> for which \<open>str\<close> returns \<open>txt\<close>. \<open>Unprintable c e\<close> is an
  exception of class \<open>c\<close> for which \<open>str\<close> raises \<open>e\<close>: in Python 2 one built
  from a \<open>unicode\<close> argument outside ASCII (\<open>str\<close> raises
  \<open>UnicodeEncodeError\<close>, a \<open>ValueError\<close>), or one whose class has a \<open>__str__\<close>
  that raises. An instance of \<open>ConeyException\<close>, \<open>CallTimeoutException\<close> or
  \<open>RemoteUnhandledExceptionException\<close> built from other arguments than those of its
  constructor here is such a value of class \<open>Exception\<close>: the dispatcher treats it
  as any other exception below \<open>Exception\<close>.
\<close>

datatype exn =
    PyError builtin_class string
  | Unprintable builtin_class exn
  | ConeyException
  | CallTimeoutException
  | MalformedRequestException string bytes
  | RemoteExecErrorException string
  | RemoteUnhandledExceptionException string
  | DispatchHandlerException response_code
  | HandlerNotCallableException

text \<open>\<open>except (ValueError, TypeError)\<close>, \<open>except ValueError\<close> and \<open>except Exception\<close>.\<close>

fun is_ValueError :: "exn \<Rightarrow> bool" where
  "is_ValueError (PyError ValueError txt) = True"
| "is_ValueError (Unprintable ValueError e) = True"
| "is_ValueError e = False"

fun is_TypeError :: "exn \<Rightarrow> bool" where
  "is_TypeError (PyError TypeError txt) = True"
| "is_TypeError (Unprintable TypeError e) = True"
| "is_TypeError e = False"

fun is_Exception :: "exn \<Rightarrow> bool" where
  "is_Exception (PyError SystemExit txt) = False"
| "is_Exception (PyError KeyboardInterrupt txt) = False"
| "is_Exception (Unprintable SystemExit e) = False"
| "is_Exception (Unprintable KeyboardInterrupt e) = False"
| "is_Exception e = True"

subsection \<open>The text of an exception\<close>

text \<open>
  \<open>repr\<close> of a Python 2 \<open>str\<close>: single quotes, unless the string holds a single
  quote and no double quote; the quote and the backslash are escaped, tab, newline and
  carriage return are written \<open>\t\<close>, \<open>\n\<close>, \<open>\r\<close>, every other byte outside the
  printable ASCII range as \<open>\xNN\<close>.
\<close>

definition hexdigit :: "nat \<Rightarrow> char" where
  "hexdigit n = ''0123456789abcdef'' ! n"

definition repr_char :: "char \<Rightarrow> char \<Rightarrow> string" where
  "repr_char q c =
     (if c = q \<or> c = CHR 0x5C then [CHR 0x5C, c]
      else if c = CHR 0x09 then [CHR 0x5C, CHR ''t'']
      else if c = CHR 0x0A then [CHR 0x5C, CHR ''n'']
      else if c = CHR 0x0D then [CHR 0x5C, CHR ''r'']
      else if (of_char c :: nat) < 32 \<or> 127 \<le> (of_char c :: nat)
        then [CHR 0x5C, CHR ''x'', hexdigit ((of_char c :: nat) div 16),
              hexdigit ((of_char c :: nat) mod 16)]
      else [c])"

definition repr_str :: "string \<Rightarrow> string" where
  "repr_str s =
     (let q = (if CHR 0x27 \<in> set s \<and> CHR 0x22 \<notin> set s then CHR 0x22 else CHR 0x27)
      in q # concat (map (repr_char q) s) @ [q])"

text \<open>The text of a tuple of two byte strings: \<open>str((a, b))\<close>.\<close>

definition str_pair :: "string \<Rightarrow> string \<Rightarrow> string" where
  "str_pair a b = ''('' @ repr_str a @ '', '' @ repr_str b @ '')''"

text \<open>
  \<open>str(ex)\<close>: the text, or the exception that taking it raises. None of the classes
  of \<open>exceptions.py\<close> defines \<open>__str__\<close> (they define \<open>__repr__\<close> only), so
  their text is that of \<open>BaseException\<close>: the empty string for no constructor
  argument, the text of the argument for one, the text of the tuple of arguments for
  more. There is no equation for \<open>DispatchHandlerException\<close>, whose class the sources
  do not hold; the dispatcher never takes its text.
\<close>

fun str_exn :: "exn \<Rightarrow> exn + string" where
  "str_exn (PyError c txt) = Inr txt"
| "str_exn (Unprintable c e) = Inl e"
| "str_exn ConeyException = Inr []"
| "str_exn CallTimeoutException = Inr []"
| "str_exn (MalformedRequestException serializer_name request) =
     Inr (str_pair serializer_name request)"
| "str_exn (RemoteExecErrorException details) = Inr details"
| "str_exn (RemoteUnhandledExceptionException details) = Inr details"
| "str_exn HandlerNotCallableException = Inr []"

subsection \<open>Dictionary keys and slices\<close>

definition quoted :: "string \<Rightarrow> string" where
  "quoted s = CHR 0x27 # s @ [CHR 0x27]"

text \<open>The \<open>AttributeError\<close> of reading an attribute that an object does not have.\<close>

definition no_attribute :: "string \<Rightarrow> string \<Rightarrow> exn" where
  "no_attribute cls attr =
     PyError AttributeError (quoted cls @ '' object has no attribute '' @ quoted attr)"

fun type_name :: "pyval \<Rightarrow> string" where
  "type_name PNone = ''NoneType''"
| "type_name (PBool b) = ''bool''"
| "type_name (PInt i) = ''int''"
| "type_name (PStr s) = ''str''"
| "type_name (PList xs) = ''list''"
| "type_name (PDict kvs) = ''dict''"

text \<open>
  A dictionary hashes its key: lists and dictionaries are unhashable (\<open>TypeError\<close>);
  \<open>True\<close> and \<open>False\<close> are the same keys as \<open>1\<close> and \<open>0\<close>. \<open>dict_key\<close> gives the
  representative under which a key is stored and looked up.
\<close>

fun dict_key :: "pyval \<Rightarrow> exn + pyval" where
  "dict_key (PList xs) = Inl (PyError TypeError (''unhashable type: '' @ quoted ''list''))"
| "dict_key (PDict kvs) = Inl (PyError TypeError (''unhashable type: '' @ quoted ''dict''))"
| "dict_key (PBool b) = Inr (PInt (if b then 1 else 0))"
| "dict_key v = Inr v"

text \<open>
  \<open>l[0:3]\<close>: a list gives its first three elements (fewer when it is shorter), a string
  its first three characters; a dictionary cannot hash the slice, and \<open>None\<close>, booleans
  and integers have no \<open>__getitem__\<close>.
\<close>

fun getslice_0_3 :: "pyval \<Rightarrow> exn + pyval list" where
  "getslice_0_3 (PList xs) = Inr (take 3 xs)"
| "getslice_0_3 (PStr s) = Inr (map (\<lambda>c. PStr [c]) (take 3 s))"
| "getslice_0_3 (PDict kvs) = Inl (PyError TypeError ''unhashable type'')"
| "getslice_0_3 v =
     Inl (PyError TypeError
       (quoted (type_name v) @ '' object has no attribute '' @ quoted ''__getitem__''))"

section \<open>The envelope: Request and Response\<close>

text \<open>
  The serializer and the compressor are capabilities handed to the server. Decoding can
  raise; encoding is total on the values of \<open>pyval\<close>, the codec-representable ones.
\<close>

record serializer =
  ser_name :: string
  ser_loads :: "bytes \<Rightarrow> exn + pyval"
  ser_dumps :: "pyval \<Rightarrow> bytes"

record compressor =
  decompress :: "bytes \<Rightarrow> exn + bytes"
  compress :: "bytes \<Rightarrow> bytes"

record request =
  version :: pyval
  metadata :: pyval
  arguments :: pyval

text \<open>
  \<open>Request.loads\<close>. The first \<open>try\<close> turns a \<open>ValueError\<close> or \<open>TypeError\<close> of the
  serializer into \<open>MalformedRequestException\<close>; the second one turns a \<open>ValueError\<close> of
  the slice or of the unpacking into it, and the unpacking raises \<open>ValueError\<close> when the
  slice does not hold exactly three values.
\<close>

definition Request_loads :: "bytes \<Rightarrow> serializer \<Rightarrow> exn + request" where
  "Request_loads s ser =
     (case ser_loads ser s of
        Inl e \<Rightarrow>
          if is_ValueError e \<or> is_TypeError e
          then Inl (MalformedRequestException (ser_name ser) s)
          else Inl e
      | Inr l \<Rightarrow>
          (case getslice_0_3 l of
             Inl e \<Rightarrow>
               if is_ValueError e
               then Inl (MalformedRequestException (ser_name ser) s)
               else Inl e
           | Inr [ver, meta, args] \<Rightarrow>
               Inr \<lparr>version = ver, metadata = meta, arguments = args\<rparr>
           | Inr other \<Rightarrow> Inl (MalformedRequestException (ser_name ser) s)))"

definition Request_dumps :: "request \<Rightarrow> serializer \<Rightarrow> bytes" where
  "Request_dumps r ser = ser_dumps ser (PList [version r, metadata r, arguments r])"

text \<open>
  The truth value of a Request in \<open>if not request\<close>: the class defines neither
  \<open>__nonzero__\<close> nor \<open>__len__\<close>, so every instance is true.
\<close>

definition bool_Request :: "request \<Rightarrow> bool" where
  "bool_Request r = True"

text \<open>
  Modelled from the spec: the class \<open>Response\<close> is not among the sources. The
  dispatcher builds it as \<open>Response(value)\<close>, \<open>Response(None, code)\<close> and
  \<open>Response(None, code, details)\<close>: the code defaults to \<open>SUCCESS\<close>, the details are
  optional.
\<close>

record response =
  resp_value :: pyval
  resp_code :: response_code
  resp_details :: "string option"

definition Response :: "pyval \<Rightarrow> response_code \<Rightarrow> string option \<Rightarrow> response" where
  "Response v c d = \<lparr>resp_value = v, resp_code = c, resp_details = d\<rparr>"

section \<open>The server\<close>

text \<open>
  A handler is modelled by the outcome of the call \<open>fn(**request.arguments)\<close> for each
  value of \<open>request.arguments\<close>: a return value or the exception raised, by the body or
  by the binding of the arguments. Handlers do not touch the server.
\<close>

type_synonym handler = "pyval \<Rightarrow> exn + pyval"

text \<open>
  Modelled from the spec: \<open>utils.is_callable\<close> is not among the sources; it tells
  whether the handler is invocable. The third argument of \<open>register_handler\<close> is a
  function, which is, or some other object, which is not.
\<close>

datatype pyobject = Function handler | Object pyval

text \<open>What the server asks of the broker's channel, in order.\<close>

datatype event =
    QueueDeclare string
  | BasicConsume string
  | BasicPublish string string bytes
  | BasicAck nat

datatype log_message =
    Literal string
  | Dispatch_exception response_code bytes
  | Unhandled_exception exn
  | Replying_with response

datatype log_record = Warn log_message | Debug log_message

text \<open>
  The state of a Server: its codecs, the registry \<open>_queues\<close> (method name to version to
  handler, the versions stored under their \<open>dict_key\<close>), the calls made on the channel
  and the records logged. \<open>response_dumps\<close> stands for \<open>resp.dumps(self._serializer)\<close>,
  a method of the class \<open>Response\<close>, which the sources do not hold: it is a parameter.
\<close>

record server =
  serializer :: serializer
  compressor :: compressor
  response_dumps :: "response \<Rightarrow> bytes"
  queues :: "string \<rightharpoonup> (pyval \<rightharpoonup> handler)"
  channel :: "event list"
  log :: "log_record list"

text \<open>The delivery: \<open>props.reply_to\<close>, \<open>props.correlation_id\<close>, \<open>meth.delivery_tag\<close>.\<close>

record delivery =
  reply_to :: string
  correlation_id :: string
  delivery_tag :: nat

subsection \<open>The dispatcher\<close>

text \<open>The \<open>try\<close> suite of \<open>_dispatcher\<close>: the Response, or the exception that leaves it.\<close>

definition dispatch_try :: "server \<Rightarrow> string \<Rightarrow> bytes \<Rightarrow> exn + response" where
  "dispatch_try srv method_name raw_body =
     (case decompress (compressor srv) raw_body of
        Inl e \<Rightarrow> Inl e
      | Inr body \<Rightarrow>
     (case Request_loads body (serializer srv) of
        Inl e \<Rightarrow> Inl e
      | Inr request \<Rightarrow>
     if \<not> bool_Request request then Inl (DispatchHandlerException MALFORMED_REQUEST)
     else
     (case queues srv method_name of
        None \<Rightarrow> Inl (DispatchHandlerException METHOD_NOT_FOUND)
      | Some method_versions \<Rightarrow>
     (case dict_key (version request) of
        Inl e \<Rightarrow> Inl e
      | Inr k \<Rightarrow>
     (case method_versions k of
        None \<Rightarrow> Inl (DispatchHandlerException VERSION_NOT_FOUND)
      | Some fn \<Rightarrow>
     (case fn (arguments request) of
        Inl e \<Rightarrow> Inl e
      | Inr return_value \<Rightarrow> Inr (Response return_value SUCCESS None)))))))"

text \<open>
  The three \<open>except\<close> clauses, in order. The second one formats \<open>ex.value\<close> and
  \<open>ex.details\<close>, attributes that \<open>RemoteExecErrorException\<close> does not have (it stores
  \<open>_details\<close>): reading \<open>ex.value\<close> raises \<open>AttributeError\<close> inside the clause, which
  no other clause of the same statement catches. The third one does not catch what is
  not an \<open>Exception\<close>; it logs the warning and then takes \<open>str(ex)\<close>, and an
  exception raised by that leaves the clause as well.
\<close>

fun dispatch_except :: "exn \<Rightarrow> bytes \<Rightarrow> (exn + response) \<times> log_record list" where
  "dispatch_except (DispatchHandlerException c) raw_body =
     (Inr (Response PNone c None), [Warn (Dispatch_exception c raw_body)])"
| "dispatch_except (RemoteExecErrorException details) raw_body =
     (Inl (no_attribute ''RemoteExecErrorException'' ''value''),
      [])"
| "dispatch_except ex raw_body =
     (if is_Exception ex
      then (case str_exn ex of
              Inl e \<Rightarrow> (Inl e, [Warn (Unhandled_exception ex)])
            | Inr txt \<Rightarrow>
                (Inr (Response PNone UNEXPECTED_DISPATCH_EXCEPTION (Some txt)),
                 [Warn (Unhandled_exception ex)]))
      else (Inl ex, []))"

text \<open>The whole \<open>try\<close> statement: the Response to send, or the exception that escapes.\<close>

definition dispatch_response ::
  "server \<Rightarrow> string \<Rightarrow> bytes \<Rightarrow> (exn + response) \<times> log_record list" where
  "dispatch_response srv method_name raw_body =
     (case dispatch_try srv method_name raw_body of
        Inl ex \<Rightarrow> dispatch_except ex raw_body
      | Inr resp \<Rightarrow> (Inr resp, []))"

text \<open>
  \<open>_dispatcher\<close>, the callback bound to \<open>method_name\<close>: after the \<open>try\<close> statement it
  publishes the Response to the reply address and acknowledges the delivery. An
  exception that escapes the \<open>try\<close> statement leaves the callback before both.
\<close>

definition dispatcher ::
  "string \<Rightarrow> delivery \<Rightarrow> bytes \<Rightarrow> server \<Rightarrow> (exn + unit) \<times> server" where
  "dispatcher method_name dlv raw_body srv =
     (case dispatch_response srv method_name raw_body of
        (Inl ex, logged) \<Rightarrow> (Inl ex, srv\<lparr>log := log srv @ logged\<rparr>)
      | (Inr resp, logged) \<Rightarrow>
          (Inr (),
           srv\<lparr>channel := channel srv @
                  [BasicPublish (reply_to dlv) (correlation_id dlv)
                     (compress (compressor srv) (response_dumps srv resp)),
                   BasicAck (delivery_tag dlv)],
               log := log srv @ logged @ [Debug (Replying_with resp)]\<rparr>))"

subsection \<open>Registration\<close>

text \<open>\<open>_register_handler\<close>: declare the queue of the method and consume from it.\<close>

definition priv_register_handler :: "string \<Rightarrow> server \<Rightarrow> server" where
  "priv_register_handler method_name srv =
     srv\<lparr>channel := channel srv @ [QueueDeclare method_name, BasicConsume method_name]\<rparr>"

text \<open>
  \<open>register_handler\<close>. A missing method name is the \<open>KeyError\<close> of
  \<open>self._queues[method_name]\<close>. When the version is already registered the code calls
  \<open>logger.warn(...)\<close> and then \<open>.format\<close> on its result, which is \<open>None\<close>: the
  warning is logged with its placeholders, \<open>AttributeError\<close> is raised, \<open>except
  KeyError\<close> does not catch it and the \<open>else\<close> suite, which stores the handler, is
  skipped.
\<close>

definition register_handler ::
  "string \<Rightarrow> pyval \<Rightarrow> pyobject \<Rightarrow> server \<Rightarrow> (exn + unit) \<times> server" where
  "register_handler method_name ver fn srv =
     (case fn of
        Object v \<Rightarrow> (Inl HandlerNotCallableException, srv)
      | Function f \<Rightarrow>
     (case queues srv method_name of
        None \<Rightarrow>
          (case dict_key ver of
             Inl e \<Rightarrow> (Inl e, srv)
           | Inr k \<Rightarrow>
               (Inr (),
                priv_register_handler method_name
                  (srv\<lparr>queues := (queues srv)(method_name \<mapsto> [k \<mapsto> f])\<rparr>)))
      | Some method_versions \<Rightarrow>
          (case dict_key ver of
             Inl e \<Rightarrow> (Inl e, srv)
           | Inr k \<Rightarrow>
               (case method_versions k of
                  Some f0 \<Rightarrow>
                    (Inl (no_attribute ''NoneType'' ''format''),
                     srv\<lparr>log := log srv @
                            [Warn (Literal ''Duplicate handler registered for [{}/{}]'')]\<rparr>)
                | None \<Rightarrow>
                    (Inr (),
                     srv\<lparr>queues := (queues srv)(method_name \<mapsto> method_versions(k \<mapsto> f))\<rparr>)))))"

section \<open>A test bench\<close>

text \<open>
  Concrete collaborators on which the theorems below are exercised: a serializer given
  by a finite table of payloads (every other payload is a \<open>ValueError\<close>), the identity
  compressor, two handlers and a delivery.
\<close>

definition example_table :: "(bytes \<times> pyval) list" where
  "example_table =
     [(''echo-v1'', PList [PInt 1, PDict [], PDict [(PStr ''x'', PInt 42)]]),
      (''echo-v2'', PList [PInt 2, PDict [], PDict [(PStr ''x'', PInt 42)]]),
      (''echo-v1-extra'',
         PList [PInt 1, PDict [], PDict [(PStr ''x'', PInt 42)], PStr ''extra'']),
      (''echo-list-version'',
         PList [PList [PInt 1], PDict [], PDict [(PStr ''x'', PInt 42)]])]"

definition example_serializer :: serializer where
  "example_serializer =
     \<lparr>ser_name = ''MsgpackSerializer'',
      ser_loads = (\<lambda>s. case map_of example_table s of
                          Some v \<Rightarrow> Inr v
                        | None \<Rightarrow> Inl (PyError ValueError ''Unpack failed'')),
      ser_dumps = (\<lambda>v. case map_of (map prod.swap example_table) v of
                          Some s \<Rightarrow> s
                        | None \<Rightarrow> [])\<rparr>"

definition null_compressor :: compressor where
  "null_compressor = \<lparr>decompress = (\<lambda>b. Inr b), compress = (\<lambda>b. b)\<rparr>"

definition example_response_dumps :: "response \<Rightarrow> bytes" where
  "example_response_dumps r =
     (case resp_code r of
        SUCCESS \<Rightarrow> ''SUCCESS''
      | MALFORMED_REQUEST \<Rightarrow> ''MALFORMED_REQUEST''
      | METHOD_NOT_FOUND \<Rightarrow> ''METHOD_NOT_FOUND''
      | VERSION_NOT_FOUND \<Rightarrow> ''VERSION_NOT_FOUND''
      | UNEXPECTED_DISPATCH_EXCEPTION \<Rightarrow> ''UNEXPECTED_DISPATCH_EXCEPTION''
      | REMOTE_EXEC_ERROR \<Rightarrow> ''REMOTE_EXEC_ERROR''
      | REMOTE_UNHANDLED_EXCEPTION \<Rightarrow> ''REMOTE_UNHANDLED_EXCEPTION'')
     @ (case resp_details r of None \<Rightarrow> [] | Some d \<Rightarrow> '': '' @ d)"

definition example_server :: server where
  "example_server =
     \<lparr>serializer = example_serializer, compressor = null_compressor,
      response_dumps = example_response_dumps, queues = Map.empty,
      channel = [], log = []\<rparr>"

definition example_delivery :: delivery where
  "example_delivery = \<lparr>reply_to = ''amq.gen-reply'', correlation_id = ''c-1'', delivery_tag = 7\<rparr>"

text \<open>\<open>def echo(x): return x\<close>, and a handler that raises a given exception.\<close>

definition echo :: handler where
  "echo a =
     (case a of
        PDict [(k, v)] \<Rightarrow>
          if k = PStr ''x'' then Inr v
          else Inl (PyError TypeError ''echo() got an unexpected keyword argument'')
      | other \<Rightarrow> Inl (PyError TypeError ''echo() takes exactly 1 argument''))"

definition raising :: "exn \<Rightarrow> handler" where
  "raising e a = Inl e"

text \<open>The server after \<open>register_handler('echo', 1, fn)\<close>.\<close>

definition server_with :: "handler \<Rightarrow> server" where
  "server_with fn = snd (register_handler ''echo'' (PInt 1) (Function fn) example_server)"

section \<open>Facts about the test bench\<close>

lemma example_loads_v1:
  "Request_loads ''echo-v1'' example_serializer =
     Inr \<lparr>version = PInt 1, metadata = PDict [], arguments = PDict [(PStr ''x'', PInt 42)]\<rparr>"
  by (simp add: Request_loads_def example_serializer_def example_table_def)

lemma server_with_queues:
  "queues (server_with fn) = [''echo'' \<mapsto> [PInt 1 \<mapsto> fn]]"
  by (simp add: server_with_def register_handler_def priv_register_handler_def
      example_server_def)

lemma server_with_codecs:
  "serializer (server_with fn) = example_serializer"
  "compressor (server_with fn) = null_compressor"
  "response_dumps (server_with fn) = example_response_dumps"
  by (simp_all add: server_with_def register_handler_def priv_register_handler_def
      example_server_def)

lemma server_with_channel:
  "channel (server_with fn) = [QueueDeclare ''echo'', BasicConsume ''echo'']"
  "log (server_with fn) = []"
  by (simp_all add: server_with_def register_handler_def priv_register_handler_def
      example_server_def)

lemma example_dispatch_try_raising:
  "dispatch_try (server_with (raising e)) ''echo'' ''echo-v1'' = Inl e"
  by (simp add: dispatch_try_def server_with_codecs server_with_queues null_compressor_def
      example_loads_v1 bool_Request_def raising_def)

section \<open>The dispatch cycle\<close>

text \<open>
  Once the \<open>try\<close> statement has produced a Response, the callback publishes it and then
  acknowledges; an exception that escapes the statement leaves the channel untouched.
\<close>

lemma dispatcher_replies:
  assumes "dispatch_response srv m raw = (Inr resp, logged)"
  shows "dispatcher m dlv raw srv =
     (Inr (),
      srv\<lparr>channel := channel srv @
             [BasicPublish (reply_to dlv) (correlation_id dlv)
                (compress (compressor srv) (response_dumps srv resp)),
              BasicAck (delivery_tag dlv)],
          log := log srv @ logged @ [Debug (Replying_with resp)]\<rparr>)"
  using assms by (simp add: dispatcher_def)

lemma dispatcher_raises:
  assumes "dispatch_response srv m raw = (Inl ex, logged)"
  shows "dispatcher m dlv raw srv = (Inl ex, srv\<lparr>log := log srv @ logged\<rparr>)"
  using assms by (simp add: dispatcher_def)

text \<open>With the request decoded and the handler found, the \<open>try\<close> suite is the call.\<close>

lemma dispatch_try_handler:
  assumes "decompress (compressor srv) raw = Inr body"
    and "Request_loads body (serializer srv) = Inr req"
    and "queues srv m = Some mv"
    and "dict_key (version req) = Inr k"
    and "mv k = Some fn"
  shows "dispatch_try srv m raw =
     (case fn (arguments req) of
        Inl e \<Rightarrow> Inl e
      | Inr v \<Rightarrow> Inr (Response v SUCCESS None))"
  using assms by (simp add: dispatch_try_def bool_Request_def)

text \<open>
  The callback either publishes a Response and then acknowledges, or lets an exception
  escape with the channel untouched; the latter happens exactly when the \<open>try\<close> suite
  ends in \<open>RemoteExecErrorException\<close>, in an exception that is not an
  \<open>Exception\<close>, or in one whose text cannot be taken.
\<close>

lemma dispatch_except_raises_iff:
  "(\<exists>ex logged. dispatch_except e raw = (Inl ex, logged)) =
     ((\<exists>d. e = RemoteExecErrorException d) \<or> \<not> is_Exception e \<or>
      ((\<forall>c. e \<noteq> DispatchHandlerException c) \<and> (\<exists>e'. str_exn e = Inl e')))"
proof (cases e)
  case (PyError c t)
  then show ?thesis by simp
next
  case (Unprintable c e')
  then show ?thesis by simp
qed simp_all

lemma dispatch_response_raises_iff:
  "(\<exists>ex logged. dispatch_response srv m raw = (Inl ex, logged)) =
     ((\<exists>d. dispatch_try srv m raw = Inl (RemoteExecErrorException d)) \<or>
      (\<exists>e. dispatch_try srv m raw = Inl e \<and> \<not> is_Exception e) \<or>
      (\<exists>e e'. dispatch_try srv m raw = Inl e \<and> (\<forall>c. e \<noteq> DispatchHandlerException c) \<and>
          str_exn e = Inl e'))"
proof (cases "dispatch_try srv m raw")
  case (Inl e)
  with dispatch_except_raises_iff [of e raw] show ?thesis
    by (simp add: dispatch_response_def)
next
  case (Inr resp)
  then show ?thesis by (simp add: dispatch_response_def)
qed

lemma dispatcher_outcome:
  "(\<exists>resp logged.
      dispatch_response srv m raw = (Inr resp, logged) \<and>
      dispatcher m dlv raw srv =
        (Inr (),
         srv\<lparr>channel := channel srv @
                [BasicPublish (reply_to dlv) (correlation_id dlv)
                   (compress (compressor srv) (response_dumps srv resp)),
                 BasicAck (delivery_tag dlv)],
             log := log srv @ logged @ [Debug (Replying_with resp)]\<rparr>)) \<or>
   (\<exists>ex logged.
      dispatch_response srv m raw = (Inl ex, logged) \<and>
      dispatcher m dlv raw srv = (Inl ex, srv\<lparr>log := log srv @ logged\<rparr>))"
proof (cases "dispatch_response srv m raw")
  case (Pair r logged)
  show ?thesis
  proof (cases r)
    case (Inl ex)
    with Pair dispatcher_raises [of srv m raw ex logged dlv] show ?thesis by simp
  next
    case (Inr resp)
    with Pair dispatcher_replies [of srv m raw resp logged dlv] show ?thesis by simp
  qed
qed

subsection \<open>A handler that returns\<close>

text \<open>
  Claim C6. When the payload decodes to a Request, the registry holds a handler for the
  dispatcher's method name and the Request's version, and the call of that handler with
  the Request's arguments returns \<open>v\<close>, the dispatcher publishes
  \<open>Response(code=SUCCESS, value=v)\<close>, without details, to the reply address with the
  correlation token of the delivery, then acknowledges the delivery, and returns.
\<close>

theorem handler_return_value_published:
  assumes "decompress (compressor srv) raw = Inr body"
    and "Request_loads body (serializer srv) = Inr req"
    and "queues srv m = Some mv"
    and "dict_key (version req) = Inr k"
    and "mv k = Some fn"
    and "fn (arguments req) = Inr v"
  shows "dispatcher m dlv raw srv =
     (Inr (),
      srv\<lparr>channel := channel srv @
             [BasicPublish (reply_to dlv) (correlation_id dlv)
                (compress (compressor srv) (response_dumps srv (Response v SUCCESS None))),
              BasicAck (delivery_tag dlv)],
          log := log srv @ [Debug (Replying_with (Response v SUCCESS None))]\<rparr>)"
proof -
  have "dispatch_try srv m raw = Inr (Response v SUCCESS None)"
    using dispatch_try_handler [OF assms(1-5)] assms(6) by simp
  then have "dispatch_response srv m raw = (Inr (Response v SUCCESS None), [])"
    by (simp add: dispatch_response_def)
  from dispatcher_replies [OF this] show ?thesis by simp
qed

text \<open>
  The scenario of the spec: \<open>echo\<close> registered for version 1, a request with
  \<open>x = 42\<close>.
\<close>

theorem handler_return_value_published_witness:
  "decompress (compressor (server_with echo)) ''echo-v1'' = Inr ''echo-v1'' \<and>
   Request_loads ''echo-v1'' (serializer (server_with echo)) =
     Inr \<lparr>version = PInt 1, metadata = PDict [], arguments = PDict [(PStr ''x'', PInt 42)]\<rparr> \<and>
   queues (server_with echo) ''echo'' = Some [PInt 1 \<mapsto> echo] \<and>
   dict_key (PInt 1) = Inr (PInt 1) \<and>
   [PInt 1 \<mapsto> echo] (PInt 1) = Some echo \<and>
   echo (PDict [(PStr ''x'', PInt 42)]) = Inr (PInt 42) \<and>
   channel (snd (dispatcher ''echo'' example_delivery ''echo-v1'' (server_with echo))) =
     [QueueDeclare ''echo'', BasicConsume ''echo'',
      BasicPublish ''amq.gen-reply'' ''c-1'' ''SUCCESS'', BasicAck 7] \<and>
   fst (dispatcher ''echo'' example_delivery ''echo-v1'' (server_with echo)) = Inr ()"
proof -
  have 1: "decompress (compressor (server_with echo)) ''echo-v1'' = Inr ''echo-v1''"
    by (simp add: server_with_codecs null_compressor_def)
  have 2: "Request_loads ''echo-v1'' (serializer (server_with echo)) =
     Inr \<lparr>version = PInt 1, metadata = PDict [], arguments = PDict [(PStr ''x'', PInt 42)]\<rparr>"
    by (simp add: server_with_codecs example_loads_v1)
  have 3: "queues (server_with echo) ''echo'' = Some [PInt 1 \<mapsto> echo]"
    by (simp add: server_with_queues)
  have 4: "dict_key (version \<lparr>version = PInt 1, metadata = PDict [],
      arguments = PDict [(PStr ''x'', PInt 42)]\<rparr>) = Inr (PInt 1)"
    by simp
  have 5: "[PInt 1 \<mapsto> echo] (PInt 1) = Some echo" by simp
  have 6: "echo (arguments \<lparr>version = PInt 1, metadata = PDict [],
      arguments = PDict [(PStr ''x'', PInt 42)]\<rparr>) = Inr (PInt 42)"
    by (simp add: echo_def)
  show ?thesis
    using handler_return_value_published [OF 1 2 3 4 5 6, of example_delivery] 1 2 3 5 6
    by (simp add: server_with_codecs server_with_channel null_compressor_def
        example_response_dumps_def example_delivery_def Response_def)
qed

subsection \<open>A handler that raises\<close>

text \<open>
  Claim C5. The claim is that a handler raising \<open>RemoteExecErrorException\<close> is
  answered with a Response carrying the reported code and details. In the code the
  clause that catches it reads \<open>ex.value\<close>, which the class does not define: with
  the request decoded and the handler found, a handler that raises
  \<open>RemoteExecErrorException\<close> makes the \<open>try\<close> statement end in
  \<open>AttributeError\<close>; no Response is built and nothing is logged.
\<close>

theorem remote_exec_error_no_response:
  assumes "decompress (compressor srv) raw = Inr body"
    and "Request_loads body (serializer srv) = Inr req"
    and "queues srv m = Some mv"
    and "dict_key (version req) = Inr k"
    and "mv k = Some fn"
    and "fn (arguments req) = Inl (RemoteExecErrorException d)"
  shows "dispatch_response srv m raw =
     (Inl (no_attribute ''RemoteExecErrorException'' ''value''),
      [])"
proof -
  have "dispatch_try srv m raw = Inl (RemoteExecErrorException d)"
    using dispatch_try_handler [OF assms(1-5)] assms(6) by simp
  then show ?thesis by (simp add: dispatch_response_def)
qed

theorem remote_exec_error_no_response_witness:
  "decompress (compressor (server_with (raising (RemoteExecErrorException ''boom''))))
     ''echo-v1'' = Inr ''echo-v1'' \<and>
   Request_loads ''echo-v1''
     (serializer (server_with (raising (RemoteExecErrorException ''boom'')))) =
     Inr \<lparr>version = PInt 1, metadata = PDict [], arguments = PDict [(PStr ''x'', PInt 42)]\<rparr> \<and>
   queues (server_with (raising (RemoteExecErrorException ''boom''))) ''echo'' =
     Some [PInt 1 \<mapsto> raising (RemoteExecErrorException ''boom'')] \<and>
   raising (RemoteExecErrorException ''boom'') (PDict [(PStr ''x'', PInt 42)]) =
     Inl (RemoteExecErrorException ''boom'') \<and>
   dispatch_response (server_with (raising (RemoteExecErrorException ''boom'')))
     ''echo'' ''echo-v1'' =
     (Inl (no_attribute ''RemoteExecErrorException'' ''value''), [])"
proof -
  let ?fn = "raising (RemoteExecErrorException ''boom'')"
  let ?req = "\<lparr>version = PInt 1, metadata = PDict [],
      arguments = PDict [(PStr ''x'', PInt 42)]\<rparr>"
  have 1: "decompress (compressor (server_with ?fn)) ''echo-v1'' = Inr ''echo-v1''"
    by (simp add: server_with_codecs null_compressor_def)
  have 2: "Request_loads ''echo-v1'' (serializer (server_with ?fn)) = Inr ?req"
    by (simp add: server_with_codecs example_loads_v1)
  have 3: "queues (server_with ?fn) ''echo'' = Some [PInt 1 \<mapsto> ?fn]"
    by (simp add: server_with_queues)
  have 4: "dict_key (version ?req) = Inr (PInt 1)" by simp
  have 5: "[PInt 1 \<mapsto> ?fn] (PInt 1) = Some ?fn" by simp
  have 6: "?fn (arguments ?req) = Inl (RemoteExecErrorException ''boom'')"
    by (simp add: raising_def)
  show ?thesis
    using remote_exec_error_no_response [OF 1 2 3 4 5 6] 1 2 3 6
    by (simp add: quoted_def)
qed

text \<open>
  Claim C3. The claim is that on every path a Response is published, the delivery is
  then acknowledged and nothing propagates out of the callback. When the \<open>try\<close>
  suite ends in \<open>RemoteExecErrorException\<close>, the callback raises
  \<open>AttributeError\<close> and leaves the server as it was: nothing is published and the
  delivery is not acknowledged.
\<close>

theorem remote_exec_error_not_acknowledged:
  assumes "dispatch_try srv m raw = Inl (RemoteExecErrorException d)"
  shows "dispatcher m dlv raw srv =
     (Inl (no_attribute ''RemoteExecErrorException'' ''value''),
      srv)"
proof -
  have "dispatch_response srv m raw =
     (Inl (no_attribute ''RemoteExecErrorException'' ''value''), [])"
    using assms by (simp add: dispatch_response_def)
  from dispatcher_raises [OF this] show ?thesis by simp
qed

theorem remote_exec_error_not_acknowledged_witness:
  "dispatch_try (server_with (raising (RemoteExecErrorException ''boom''))) ''echo'' ''echo-v1'' =
     Inl (RemoteExecErrorException ''boom'') \<and>
   fst (dispatcher ''echo'' example_delivery ''echo-v1''
          (server_with (raising (RemoteExecErrorException ''boom'')))) =
     Inl (no_attribute ''RemoteExecErrorException'' ''value'') \<and>
   channel (snd (dispatcher ''echo'' example_delivery ''echo-v1''
          (server_with (raising (RemoteExecErrorException ''boom''))))) =
     [QueueDeclare ''echo'', BasicConsume ''echo'']"
proof -
  have h: "dispatch_try (server_with (raising (RemoteExecErrorException ''boom'')))
      ''echo'' ''echo-v1'' = Inl (RemoteExecErrorException ''boom'')"
    by (rule example_dispatch_try_raising)
  show ?thesis
    using remote_exec_error_not_acknowledged [OF h, of example_delivery] h
    by (simp add: server_with_channel quoted_def)
qed

lemma dispatch_except_unexpected:
  assumes "is_Exception e"
    and "\<forall>c. e \<noteq> DispatchHandlerException c"
    and "\<forall>d. e \<noteq> RemoteExecErrorException d"
  shows "dispatch_except e raw =
     (case str_exn e of
        Inl e' \<Rightarrow> (Inl e', [Warn (Unhandled_exception e)])
      | Inr txt \<Rightarrow>
          (Inr (Response PNone UNEXPECTED_DISPATCH_EXCEPTION (Some txt)),
           [Warn (Unhandled_exception e)]))"
  using assms by (cases e) simp_all

text \<open>
  Claim C8, as amended. When the handler raises an exception \<open>e\<close> that derives
  from \<open>Exception\<close>, is neither a \<open>DispatchHandlerException\<close> nor a
  \<open>RemoteExecErrorException\<close>, and \<open>str(e)\<close> returns the text \<open>txt\<close>, the
  dispatcher publishes \<open>Response(code=UNEXPECTED_DISPATCH_EXCEPTION, details=txt)\<close>,
  without value, and then acknowledges the delivery. The details are that text,
  whatever its length.
\<close>

theorem handler_failure_reply:
  assumes "decompress (compressor srv) raw = Inr body"
    and "Request_loads body (serializer srv) = Inr req"
    and "queues srv m = Some mv"
    and "dict_key (version req) = Inr k"
    and "mv k = Some fn"
    and "fn (arguments req) = Inl e"
    and "is_Exception e"
    and "\<forall>c. e \<noteq> DispatchHandlerException c"
    and "\<forall>d. e \<noteq> RemoteExecErrorException d"
    and "str_exn e = Inr txt"
  shows "dispatcher m dlv raw srv =
     (Inr (),
      srv\<lparr>channel := channel srv @
             [BasicPublish (reply_to dlv) (correlation_id dlv)
                (compress (compressor srv)
                   (response_dumps srv
                      (Response PNone UNEXPECTED_DISPATCH_EXCEPTION (Some txt)))),
              BasicAck (delivery_tag dlv)],
          log := log srv @
             [Warn (Unhandled_exception e),
              Debug (Replying_with
                (Response PNone UNEXPECTED_DISPATCH_EXCEPTION (Some txt)))]\<rparr>)"
proof -
  have "dispatch_try srv m raw = Inl e"
    using dispatch_try_handler [OF assms(1-5)] assms(6) by simp
  then have "dispatch_response srv m raw =
      (Inr (Response PNone UNEXPECTED_DISPATCH_EXCEPTION (Some txt)),
       [Warn (Unhandled_exception e)])"
    using dispatch_except_unexpected [OF assms(7-9)] assms(10)
    by (simp add: dispatch_response_def)
  from dispatcher_replies [OF this] show ?thesis by simp
qed

text \<open>A handler that does \<open>raise Exception('boom')\<close>.\<close>

theorem handler_failure_reply_witness:
  "decompress (compressor (server_with (raising (PyError Exception ''boom'')))) ''echo-v1'' =
     Inr ''echo-v1'' \<and>
   Request_loads ''echo-v1'' (serializer (server_with (raising (PyError Exception ''boom'')))) =
     Inr \<lparr>version = PInt 1, metadata = PDict [], arguments = PDict [(PStr ''x'', PInt 42)]\<rparr> \<and>
   queues (server_with (raising (PyError Exception ''boom''))) ''echo'' =
     Some [PInt 1 \<mapsto> raising (PyError Exception ''boom'')] \<and>
   raising (PyError Exception ''boom'') (PDict [(PStr ''x'', PInt 42)]) =
     Inl (PyError Exception ''boom'') \<and>
   is_Exception (PyError Exception ''boom'') \<and>
   (\<forall>c. PyError Exception ''boom'' \<noteq> DispatchHandlerException c) \<and>
   (\<forall>d. PyError Exception ''boom'' \<noteq> RemoteExecErrorException d) \<and>
   str_exn (PyError Exception ''boom'') = Inr ''boom'' \<and>
   fst (dispatcher ''echo'' example_delivery ''echo-v1''
          (server_with (raising (PyError Exception ''boom'')))) = Inr () \<and>
   channel (snd (dispatcher ''echo'' example_delivery ''echo-v1''
          (server_with (raising (PyError Exception ''boom''))))) =
     [QueueDeclare ''echo'', BasicConsume ''echo'',
      BasicPublish ''amq.gen-reply'' ''c-1'' ''UNEXPECTED_DISPATCH_EXCEPTION: boom'',
      BasicAck 7]"
proof -
  let ?e = "PyError Exception ''boom''"
  let ?fn = "raising ?e"
  let ?req = "\<lparr>version = PInt 1, metadata = PDict [],
      arguments = PDict [(PStr ''x'', PInt 42)]\<rparr>"
  have 1: "decompress (compressor (server_with ?fn)) ''echo-v1'' = Inr ''echo-v1''"
    by (simp add: server_with_codecs null_compressor_def)
  have 2: "Request_loads ''echo-v1'' (serializer (server_with ?fn)) = Inr ?req"
    by (simp add: server_with_codecs example_loads_v1)
  have 3: "queues (server_with ?fn) ''echo'' = Some [PInt 1 \<mapsto> ?fn]"
    by (simp add: server_with_queues)
  have 4: "dict_key (version ?req) = Inr (PInt 1)" by simp
  have 5: "[PInt 1 \<mapsto> ?fn] (PInt 1) = Some ?fn" by simp
  have 6: "?fn (arguments ?req) = Inl ?e" by (simp add: raising_def)
  have 7: "is_Exception ?e" by simp
  have 8: "\<forall>c. ?e \<noteq> DispatchHandlerException c" by simp
  have 9: "\<forall>d. ?e \<noteq> RemoteExecErrorException d" by simp
  have 10: "str_exn ?e = Inr ''boom''" by simp
  show ?thesis
    using handler_failure_reply [OF 1 2 3 4 5 6 7 8 9 10, of example_delivery] 1 2 3 6
    by (simp add: server_with_codecs server_with_channel null_compressor_def
        example_response_dumps_def example_delivery_def Response_def)
qed

text \<open>
  Claim C8 as stated also wants the details non-empty. A handler that raises
  \<open>Exception()\<close>, whose text is the empty string, is answered with empty
  details.
\<close>

theorem empty_details_counterexample:
  "raising (PyError Exception []) (PDict [(PStr ''x'', PInt 42)]) = Inl (PyError Exception []) \<and>
   str_exn (PyError Exception []) = Inr [] \<and>
   fst (dispatch_response (server_with (raising (PyError Exception []))) ''echo'' ''echo-v1'') =
     Inr \<lparr>resp_value = PNone, resp_code = UNEXPECTED_DISPATCH_EXCEPTION,
          resp_details = Some []\<rparr>"
  by (simp add: dispatch_response_def example_dispatch_try_raising Response_def raising_def)

text \<open>
  When taking the text raises, the exception leaves the callback after the warning:
  nothing is published and the delivery is not acknowledged.
\<close>

lemma handler_failure_unprintable:
  assumes "dispatch_try srv m raw = Inl e"
    and "is_Exception e"
    and "\<forall>c. e \<noteq> DispatchHandlerException c"
    and "\<forall>d. e \<noteq> RemoteExecErrorException d"
    and "str_exn e = Inl e'"
  shows "dispatcher m dlv raw srv =
     (Inl e', srv\<lparr>log := log srv @ [Warn (Unhandled_exception e)]\<rparr>)"
proof -
  have "dispatch_response srv m raw = (Inl e', [Warn (Unhandled_exception e)])"
    using dispatch_except_unexpected [OF assms(2-4)] assms(1,5)
    by (simp add: dispatch_response_def)
  from dispatcher_raises [OF this] show ?thesis .
qed

text \<open>
  A handler raises an exception of its own class, whose \<open>__str__\<close> raises
  \<open>RuntimeError('no text')\<close>.
\<close>

lemma example_unprintable:
  "fst (dispatcher ''echo'' example_delivery ''echo-v1''
          (server_with (raising (Unprintable Exception (PyError Exception ''no text''))))) =
     Inl (PyError Exception ''no text'') \<and>
   channel (snd (dispatcher ''echo'' example_delivery ''echo-v1''
          (server_with (raising (Unprintable Exception (PyError Exception ''no text'')))))) =
     [QueueDeclare ''echo'', BasicConsume ''echo'']"
proof -
  let ?e = "Unprintable Exception (PyError Exception ''no text'')"
  have "dispatch_try (server_with (raising ?e)) ''echo'' ''echo-v1'' = Inl ?e"
    by (rule example_dispatch_try_raising)
  from handler_failure_unprintable [OF this, of "PyError Exception ''no text''" example_delivery]
  show ?thesis by (simp add: server_with_channel)
qed

subsection \<open>Lookup misses\<close>

text \<open>
  Claim C7, as amended. For a decoded Request: when the registry has no entry for the
  dispatcher's method name, the reply is \<open>Response(code=METHOD_NOT_FOUND)\<close> with
  no value and no details; when the method name is registered, the Request's version is
  hashable and the version map has no entry under it, the reply is
  \<open>Response(code=VERSION_NOT_FOUND)\<close>.
\<close>

theorem lookup_miss_reply:
  assumes "decompress (compressor srv) raw = Inr body"
    and "Request_loads body (serializer srv) = Inr req"
  shows "(queues srv m = None \<longrightarrow>
            dispatch_response srv m raw =
              (Inr (Response PNone METHOD_NOT_FOUND None),
               [Warn (Dispatch_exception METHOD_NOT_FOUND raw)])) \<and>
         (\<forall>mv k. queues srv m = Some mv \<and> dict_key (version req) = Inr k \<and> mv k = None \<longrightarrow>
            dispatch_response srv m raw =
              (Inr (Response PNone VERSION_NOT_FOUND None),
               [Warn (Dispatch_exception VERSION_NOT_FOUND raw)]))"
  using assms by (simp add: dispatch_response_def dispatch_try_def bool_Request_def)

theorem lookup_miss_reply_witness:
  "decompress (compressor example_server) ''echo-v1'' = Inr ''echo-v1'' \<and>
   Request_loads ''echo-v1'' (serializer example_server) =
     Inr \<lparr>version = PInt 1, metadata = PDict [], arguments = PDict [(PStr ''x'', PInt 42)]\<rparr> \<and>
   queues example_server ''echo'' = None \<and>
   dispatch_response example_server ''echo'' ''echo-v1'' =
     (Inr \<lparr>resp_value = PNone, resp_code = METHOD_NOT_FOUND, resp_details = None\<rparr>,
      [Warn (Dispatch_exception METHOD_NOT_FOUND ''echo-v1'')]) \<and>
   decompress (compressor (server_with echo)) ''echo-v2'' = Inr ''echo-v2'' \<and>
   Request_loads ''echo-v2'' (serializer (server_with echo)) =
     Inr \<lparr>version = PInt 2, metadata = PDict [], arguments = PDict [(PStr ''x'', PInt 42)]\<rparr> \<and>
   queues (server_with echo) ''echo'' = Some [PInt 1 \<mapsto> echo] \<and>
   dict_key (PInt 2) = Inr (PInt 2) \<and>
   [PInt 1 \<mapsto> echo] (PInt 2) = None \<and>
   dispatch_response (server_with echo) ''echo'' ''echo-v2'' =
     (Inr \<lparr>resp_value = PNone, resp_code = VERSION_NOT_FOUND, resp_details = None\<rparr>,
      [Warn (Dispatch_exception VERSION_NOT_FOUND ''echo-v2'')])"
proof -
  let ?r1 = "\<lparr>version = PInt 1, metadata = PDict [],
      arguments = PDict [(PStr ''x'', PInt 42)]\<rparr>"
  let ?r2 = "\<lparr>version = PInt 2, metadata = PDict [],
      arguments = PDict [(PStr ''x'', PInt 42)]\<rparr>"
  have a1: "decompress (compressor example_server) ''echo-v1'' = Inr ''echo-v1''"
    by (simp add: example_server_def null_compressor_def)
  have a2: "Request_loads ''echo-v1'' (serializer example_server) = Inr ?r1"
    by (simp add: example_server_def example_loads_v1)
  have a3: "queues example_server ''echo'' = None"
    by (simp add: example_server_def)
  have b1: "decompress (compressor (server_with echo)) ''echo-v2'' = Inr ''echo-v2''"
    by (simp add: server_with_codecs null_compressor_def)
  have b2: "Request_loads ''echo-v2'' (serializer (server_with echo)) = Inr ?r2"
    by (simp add: server_with_codecs Request_loads_def example_serializer_def
        example_table_def)
  have b3: "queues (server_with echo) ''echo'' = Some [PInt 1 \<mapsto> echo] \<and>
      dict_key (version ?r2) = Inr (PInt 2) \<and> [PInt 1 \<mapsto> echo] (PInt 2) = None"
    by (simp add: server_with_queues)
  show ?thesis
    using lookup_miss_reply [OF a1 a2, of "''echo''"] lookup_miss_reply [OF b1 b2, of "''echo''"]
      a1 a2 a3 b1 b2 b3
    by (simp add: Response_def)
qed

text \<open>
  Claim C7 as stated covers every version without an entry. A version that is a list
  has none, but the lookup raises \<open>TypeError\<close> instead of \<open>KeyError\<close>, and
  the reply carries \<open>UNEXPECTED_DISPATCH_EXCEPTION\<close>.
\<close>

theorem unhashable_version_counterexample:
  "Request_loads ''echo-list-version'' (serializer (server_with echo)) =
     Inr \<lparr>version = PList [PInt 1], metadata = PDict [],
          arguments = PDict [(PStr ''x'', PInt 42)]\<rparr> \<and>
   queues (server_with echo) ''echo'' = Some [PInt 1 \<mapsto> echo] \<and>
   [PInt 1 \<mapsto> echo] (PList [PInt 1]) = None \<and>
   fst (dispatch_response (server_with echo) ''echo'' ''echo-list-version'') =
     Inr \<lparr>resp_value = PNone, resp_code = UNEXPECTED_DISPATCH_EXCEPTION,
          resp_details = Some (''unhashable type: '' @ quoted ''list'')\<rparr>"
  by (simp add: dispatch_response_def dispatch_try_def server_with_codecs server_with_queues
      null_compressor_def Request_loads_def example_serializer_def example_table_def
      bool_Request_def Response_def numeral_3_eq_3)

subsection \<open>A payload that does not decode\<close>

text \<open>
  Claim C1. The claim is that a payload the codec fails to decode is answered with
  \<open>Response(code=MALFORMED_REQUEST)\<close> and no details. \<open>Request.loads\<close>
  raises \<open>MalformedRequestException\<close>, which derives from \<open>ConeyException\<close>
  and is not a \<open>DispatchHandlerException\<close>: the last \<open>except\<close> clause
  catches it, and the reply carries \<open>UNEXPECTED_DISPATCH_EXCEPTION\<close> with the
  text of the exception as details.
\<close>

theorem undecodable_payload_reply:
  assumes "decompress (compressor srv) raw = Inr body"
    and "ser_loads (serializer srv) body = Inl e"
    and "is_ValueError e \<or> is_TypeError e"
  shows "dispatch_response srv m raw =
     (Inr (Response PNone UNEXPECTED_DISPATCH_EXCEPTION
        (Some (str_pair (ser_name (serializer srv)) body))),
      [Warn (Unhandled_exception
         (MalformedRequestException (ser_name (serializer srv)) body))])"
proof -
  have "Request_loads body (serializer srv) =
      Inl (MalformedRequestException (ser_name (serializer srv)) body)"
    using assms(2,3) by (simp add: Request_loads_def)
  with assms(1) have "dispatch_try srv m raw =
      Inl (MalformedRequestException (ser_name (serializer srv)) body)"
    by (simp add: dispatch_try_def)
  then show ?thesis by (simp add: dispatch_response_def)
qed

theorem undecodable_payload_reply_witness:
  "decompress (compressor (server_with echo)) ''not-a-valid-payload'' =
     Inr ''not-a-valid-payload'' \<and>
   ser_loads (serializer (server_with echo)) ''not-a-valid-payload'' =
     Inl (PyError ValueError ''Unpack failed'') \<and>
   is_ValueError (PyError ValueError ''Unpack failed'') \<and>
   fst (dispatch_response (server_with echo) ''echo'' ''not-a-valid-payload'') =
     Inr \<lparr>resp_value = PNone, resp_code = UNEXPECTED_DISPATCH_EXCEPTION,
          resp_details = Some ''('MsgpackSerializer', 'not-a-valid-payload')''\<rparr>"
proof -
  have 1: "decompress (compressor (server_with echo)) ''not-a-valid-payload'' =
     Inr ''not-a-valid-payload''"
    by (simp add: server_with_codecs null_compressor_def)
  have 2: "ser_loads (serializer (server_with echo)) ''not-a-valid-payload'' =
     Inl (PyError ValueError ''Unpack failed'')"
    by (simp add: server_with_codecs example_serializer_def example_table_def)
  have 3: "is_ValueError (PyError ValueError ''Unpack failed'') \<or>
     is_TypeError (PyError ValueError ''Unpack failed'')"
    by simp
  show ?thesis
    using undecodable_payload_reply [OF 1 2 3, of "''echo''"] 1 2
    by (simp add: server_with_codecs example_serializer_def Response_def str_pair_def
        repr_str_def repr_char_def Let_def)
qed

lemma Request_loads_DispatchHandlerException:
  assumes "Request_loads s ser = Inl (DispatchHandlerException c)"
  shows "ser_loads ser s = Inl (DispatchHandlerException c)"
proof (cases "ser_loads ser s")
  case (Inl e)
  with assms show ?thesis by (simp add: Request_loads_def split: if_splits)
next
  case (Inr v)
  with assms show ?thesis
    by (cases v) (auto simp: Request_loads_def split: list.splits)
qed

lemma dict_key_raises: "dict_key v = Inl e \<Longrightarrow> \<exists>txt. e = PyError TypeError txt"
  by (cases v) auto

text \<open>
  Claim C10. \<open>Request.loads\<close> raises or returns a Request, and a Request is
  true; so the \<open>try\<close> suite never raises
  \<open>DispatchHandlerException(MALFORMED_REQUEST)\<close> from its guard
  \<open>if not request\<close>: when the suite ends in that exception, it was raised by the
  decompressor, by the serializer or by the handler.
\<close>

theorem loaded_request_guard_unreachable:
  "((\<exists>e. Request_loads s ser = Inl e) \<or>
    (\<exists>r. Request_loads s ser = Inr r \<and> bool_Request r)) \<and>
   (dispatch_try srv m raw = Inl (DispatchHandlerException MALFORMED_REQUEST) \<longrightarrow>
      decompress (compressor srv) raw = Inl (DispatchHandlerException MALFORMED_REQUEST) \<or>
      (\<exists>body. decompress (compressor srv) raw = Inr body \<and>
          ser_loads (serializer srv) body = Inl (DispatchHandlerException MALFORMED_REQUEST)) \<or>
      (\<exists>body req mv k fn.
          decompress (compressor srv) raw = Inr body \<and>
          Request_loads body (serializer srv) = Inr req \<and>
          queues srv m = Some mv \<and> dict_key (version req) = Inr k \<and> mv k = Some fn \<and>
          fn (arguments req) = Inl (DispatchHandlerException MALFORMED_REQUEST)))"
proof (intro conjI impI)
  show "(\<exists>e. Request_loads s ser = Inl e) \<or>
    (\<exists>r. Request_loads s ser = Inr r \<and> bool_Request r)"
    by (cases "Request_loads s ser") (simp_all add: bool_Request_def)
next
  assume h: "dispatch_try srv m raw = Inl (DispatchHandlerException MALFORMED_REQUEST)"
  show "decompress (compressor srv) raw = Inl (DispatchHandlerException MALFORMED_REQUEST) \<or>
      (\<exists>body. decompress (compressor srv) raw = Inr body \<and>
          ser_loads (serializer srv) body = Inl (DispatchHandlerException MALFORMED_REQUEST)) \<or>
      (\<exists>body req mv k fn.
          decompress (compressor srv) raw = Inr body \<and>
          Request_loads body (serializer srv) = Inr req \<and>
          queues srv m = Some mv \<and> dict_key (version req) = Inr k \<and> mv k = Some fn \<and>
          fn (arguments req) = Inl (DispatchHandlerException MALFORMED_REQUEST))"
  proof (cases "decompress (compressor srv) raw")
    case (Inl e)
    with h show ?thesis by (simp add: dispatch_try_def)
  next
    case body: (Inr body)
    show ?thesis
    proof (cases "Request_loads body (serializer srv)")
      case (Inl e)
      with h body have "Request_loads body (serializer srv) =
          Inl (DispatchHandlerException MALFORMED_REQUEST)"
        by (simp add: dispatch_try_def)
      from Request_loads_DispatchHandlerException [OF this] body show ?thesis by simp
    next
      case req: (Inr req)
      show ?thesis
      proof (cases "queues srv m")
        case None
        with h body req show ?thesis by (simp add: dispatch_try_def bool_Request_def)
      next
        case mv: (Some mv)
        show ?thesis
        proof (cases "dict_key (version req)")
          case (Inl e)
          with dict_key_raises [OF Inl] h body req mv show ?thesis
            by (auto simp: dispatch_try_def bool_Request_def)
        next
          case k: (Inr k)
          show ?thesis
          proof (cases "mv k")
            case None
            with h body req mv k show ?thesis
              by (simp add: dispatch_try_def bool_Request_def)
          next
            case (Some fn)
            with h body req mv k
            have "fn (arguments req) = Inl (DispatchHandlerException MALFORMED_REQUEST)"
              by (simp add: dispatch_try_def bool_Request_def split: sum.splits)
            with body req mv k Some show ?thesis by simp
          qed
        qed
      qed
    qed
  qed
qed

theorem loaded_request_guard_unreachable_witness:
  "dispatch_try (server_with (raising (DispatchHandlerException MALFORMED_REQUEST)))
     ''echo'' ''echo-v1'' = Inl (DispatchHandlerException MALFORMED_REQUEST) \<and>
   decompress (compressor (server_with (raising (DispatchHandlerException MALFORMED_REQUEST))))
     ''echo-v1'' = Inr ''echo-v1'' \<and>
   ser_loads (serializer (server_with (raising (DispatchHandlerException MALFORMED_REQUEST))))
     ''echo-v1'' \<noteq> Inl (DispatchHandlerException MALFORMED_REQUEST) \<and>
   (\<exists>req mv k fn.
      Request_loads ''echo-v1''
        (serializer (server_with (raising (DispatchHandlerException MALFORMED_REQUEST)))) =
        Inr req \<and> bool_Request req \<and>
      queues (server_with (raising (DispatchHandlerException MALFORMED_REQUEST))) ''echo'' =
        Some mv \<and>
      dict_key (version req) = Inr k \<and> mv k = Some fn \<and>
      fn (arguments req) = Inl (DispatchHandlerException MALFORMED_REQUEST))"
proof -
  let ?srv = "server_with (raising (DispatchHandlerException MALFORMED_REQUEST))"
  have h: "dispatch_try ?srv ''echo'' ''echo-v1'' =
      Inl (DispatchHandlerException MALFORMED_REQUEST)"
    by (rule example_dispatch_try_raising)
  have d: "decompress (compressor ?srv) ''echo-v1'' = Inr ''echo-v1''"
    by (simp add: server_with_codecs null_compressor_def)
  have l: "ser_loads (serializer ?srv) ''echo-v1'' \<noteq>
      Inl (DispatchHandlerException MALFORMED_REQUEST)"
    by (simp add: server_with_codecs example_serializer_def example_table_def)
  from loaded_request_guard_unreachable [of _ _ ?srv "''echo''" "''echo-v1''"] h d l
  have "\<exists>body req mv k fn.
          decompress (compressor ?srv) ''echo-v1'' = Inr body \<and>
          Request_loads body (serializer ?srv) = Inr req \<and>
          queues ?srv ''echo'' = Some mv \<and> dict_key (version req) = Inr k \<and>
          mv k = Some fn \<and>
          fn (arguments req) = Inl (DispatchHandlerException MALFORMED_REQUEST)"
    by auto
  with d have "\<exists>req mv k fn.
          Request_loads ''echo-v1'' (serializer ?srv) = Inr req \<and>
          queues ?srv ''echo'' = Some mv \<and> dict_key (version req) = Inr k \<and>
          mv k = Some fn \<and>
          fn (arguments req) = Inl (DispatchHandlerException MALFORMED_REQUEST)"
    by auto
  with h d l show ?thesis by (auto simp: bool_Request_def)
qed

section \<open>Decoding and encoding a Request\<close>

lemma Request_loads_raises:
  assumes "ser_loads ser s = Inl e"
  shows "Request_loads s ser =
     (if is_ValueError e \<or> is_TypeError e
      then Inl (MalformedRequestException (ser_name ser) s) else Inl e)"
  using assms by (simp add: Request_loads_def)

lemma Request_loads_list:
  assumes "ser_loads ser s = Inr (PList xs)"
  shows "Request_loads s ser =
     (if length xs < 3 then Inl (MalformedRequestException (ser_name ser) s)
      else Inr \<lparr>version = xs ! 0, metadata = xs ! 1, arguments = xs ! 2\<rparr>)"
proof (cases xs)
  case Nil
  with assms show ?thesis by (simp add: Request_loads_def)
next
  case a: (Cons a ys)
  show ?thesis
  proof (cases ys)
    case Nil
    with a assms show ?thesis by (simp add: Request_loads_def)
  next
    case b: (Cons b zs)
    show ?thesis
    proof (cases zs)
      case Nil
      with a b assms show ?thesis by (simp add: Request_loads_def numeral_3_eq_3)
    next
      case (Cons c rest)
      with a b assms show ?thesis by (simp add: Request_loads_def numeral_3_eq_3)
    qed
  qed
qed

lemma Request_loads_str:
  assumes "ser_loads ser s = Inr (PStr t)"
  shows "Request_loads s ser =
     (if length t < 3 then Inl (MalformedRequestException (ser_name ser) s)
      else Inr \<lparr>version = PStr [t ! 0], metadata = PStr [t ! 1], arguments = PStr [t ! 2]\<rparr>)"
proof (cases t)
  case Nil
  with assms show ?thesis by (simp add: Request_loads_def)
next
  case a: (Cons a ys)
  show ?thesis
  proof (cases ys)
    case Nil
    with a assms show ?thesis by (simp add: Request_loads_def)
  next
    case b: (Cons b zs)
    show ?thesis
    proof (cases zs)
      case Nil
      with a b assms show ?thesis by (simp add: Request_loads_def numeral_3_eq_3)
    next
      case (Cons c rest)
      with a b assms show ?thesis by (simp add: Request_loads_def numeral_3_eq_3)
    qed
  qed
qed

lemma Request_loads_unsliceable:
  assumes "ser_loads ser s = Inr v" and "\<forall>xs. v \<noteq> PList xs" and "\<forall>t. v \<noteq> PStr t"
  shows "\<exists>txt. Request_loads s ser = Inl (PyError TypeError txt)"
  using assms by (cases v) (simp_all add: Request_loads_def)

text \<open>
  Claim C4, as amended. For a payload that the serializer rejects or parses to a list,
  \<open>Request.loads\<close> raises \<open>MalformedRequestException\<close> with the serializer's name
  and the payload exactly when the serializer raises \<open>ValueError\<close> or
  \<open>TypeError\<close> (or that very exception), or the parsed list has fewer than three
  elements. A parsed list of three or more elements is decoded: the Request is made of
  its first three elements and the others are dropped.
\<close>

theorem Request_loads_malformed_iff:
  assumes "(\<exists>e. ser_loads ser s = Inl e) \<or> (\<exists>xs. ser_loads ser s = Inr (PList xs))"
  shows "((Request_loads s ser = Inl (MalformedRequestException (ser_name ser) s)) =
            ((\<exists>e. ser_loads ser s = Inl e \<and>
                  (is_ValueError e \<or> is_TypeError e \<or>
                   e = MalformedRequestException (ser_name ser) s)) \<or>
             (\<exists>xs. ser_loads ser s = Inr (PList xs) \<and> length xs < 3))) \<and>
         (ser_loads ser s = Inr (PList (ver # meta # args # rest)) \<longrightarrow>
            Request_loads s ser = Inr \<lparr>version = ver, metadata = meta, arguments = args\<rparr>)"
proof (rule conjI)
  show "(Request_loads s ser = Inl (MalformedRequestException (ser_name ser) s)) =
     ((\<exists>e. ser_loads ser s = Inl e \<and>
           (is_ValueError e \<or> is_TypeError e \<or>
            e = MalformedRequestException (ser_name ser) s)) \<or>
      (\<exists>xs. ser_loads ser s = Inr (PList xs) \<and> length xs < 3))"
  proof (cases "ser_loads ser s")
    case (Inl e)
    from Request_loads_raises [OF this] Inl show ?thesis by auto
  next
    case (Inr v)
    with assms obtain xs where "ser_loads ser s = Inr (PList xs)" by auto
    from Request_loads_list [OF this] this show ?thesis by simp
  qed
  show "ser_loads ser s = Inr (PList (ver # meta # args # rest)) \<longrightarrow>
      Request_loads s ser = Inr \<lparr>version = ver, metadata = meta, arguments = args\<rparr>"
  proof
    assume "ser_loads ser s = Inr (PList (ver # meta # args # rest))"
    from Request_loads_list [OF this]
    show "Request_loads s ser = Inr \<lparr>version = ver, metadata = meta, arguments = args\<rparr>"
      by simp
  qed
qed

text \<open>
  A payload that parses to a list of four elements satisfies the hypothesis and is
  decoded; a payload that the serializer rejects with \<open>ValueError\<close> satisfies it and
  is a \<open>MalformedRequestException\<close>.
\<close>

theorem Request_loads_malformed_iff_witness:
  "((\<exists>e. ser_loads example_serializer ''echo-v1-extra'' = Inl e) \<or>
    (\<exists>xs. ser_loads example_serializer ''echo-v1-extra'' = Inr (PList xs))) \<and>
   ser_loads example_serializer ''echo-v1-extra'' =
     Inr (PList (PInt 1 # PDict [] # PDict [(PStr ''x'', PInt 42)] # [PStr ''extra''])) \<and>
   Request_loads ''echo-v1-extra'' example_serializer =
     Inr \<lparr>version = PInt 1, metadata = PDict [], arguments = PDict [(PStr ''x'', PInt 42)]\<rparr> \<and>
   ((\<exists>e. ser_loads example_serializer ''not-a-valid-payload'' = Inl e) \<or>
    (\<exists>xs. ser_loads example_serializer ''not-a-valid-payload'' = Inr (PList xs))) \<and>
   ser_loads example_serializer ''not-a-valid-payload'' =
     Inl (PyError ValueError ''Unpack failed'') \<and>
   Request_loads ''not-a-valid-payload'' example_serializer =
     Inl (MalformedRequestException ''MsgpackSerializer'' ''not-a-valid-payload'')"
proof -
  have h: "ser_loads example_serializer ''echo-v1-extra'' =
     Inr (PList (PInt 1 # PDict [] # PDict [(PStr ''x'', PInt 42)] # [PStr ''extra'']))"
    by (simp add: example_serializer_def example_table_def)
  then have a: "(\<exists>e. ser_loads example_serializer ''echo-v1-extra'' = Inl e) \<or>
      (\<exists>xs. ser_loads example_serializer ''echo-v1-extra'' = Inr (PList xs))"
    by simp
  have g: "ser_loads example_serializer ''not-a-valid-payload'' =
     Inl (PyError ValueError ''Unpack failed'')"
    by (simp add: example_serializer_def example_table_def)
  then have b: "(\<exists>e. ser_loads example_serializer ''not-a-valid-payload'' = Inl e) \<or>
      (\<exists>xs. ser_loads example_serializer ''not-a-valid-payload'' = Inr (PList xs))"
    by simp
  have n: "ser_name example_serializer = ''MsgpackSerializer''"
    by (simp add: example_serializer_def)
  have 1: "Request_loads ''echo-v1-extra'' example_serializer =
     Inr \<lparr>version = PInt 1, metadata = PDict [], arguments = PDict [(PStr ''x'', PInt 42)]\<rparr>"
    using Request_loads_malformed_iff [OF a] h by blast
  have 2: "Request_loads ''not-a-valid-payload'' example_serializer =
     Inl (MalformedRequestException ''MsgpackSerializer'' ''not-a-valid-payload'')"
    using Request_loads_malformed_iff [OF b] g n by simp
  from a h 1 b g 2 show ?thesis by blast
qed

text \<open>
  Claim C4 as stated makes every parsed structure that does not have exactly three
  elements a decode failure. A payload that parses to four elements decodes to a
  Request.
\<close>

theorem Request_loads_four_elements_counterexample:
  "ser_loads example_serializer ''echo-v1-extra'' =
     Inr (PList [PInt 1, PDict [], PDict [(PStr ''x'', PInt 42)], PStr ''extra'']) \<and>
   length [PInt 1, PDict [], PDict [(PStr ''x'', PInt 42)], PStr ''extra''] \<noteq> 3 \<and>
   Request_loads ''echo-v1-extra'' example_serializer \<noteq>
     Inl (MalformedRequestException (ser_name example_serializer) ''echo-v1-extra'') \<and>
   Request_loads ''echo-v1-extra'' example_serializer =
     Inr \<lparr>version = PInt 1, metadata = PDict [], arguments = PDict [(PStr ''x'', PInt 42)]\<rparr>"
  by (simp add: Request_loads_def example_serializer_def example_table_def numeral_3_eq_3)

text \<open>
  Claim C9. When the serializer reads back the list \<open>[version, metadata,
  arguments]\<close> from its own encoding of it, \<open>Request.loads\<close> of
  \<open>Request.dumps\<close> gives a Request with the same three fields.
\<close>

theorem Request_loads_dumps:
  assumes "ser_loads ser (ser_dumps ser (PList [ver, meta, args])) = Inr (PList [ver, meta, args])"
  shows "Request_loads
           (Request_dumps \<lparr>version = ver, metadata = meta, arguments = args\<rparr> ser) ser =
         Inr \<lparr>version = ver, metadata = meta, arguments = args\<rparr>"
proof -
  have "Request_dumps \<lparr>version = ver, metadata = meta, arguments = args\<rparr> ser =
      ser_dumps ser (PList [ver, meta, args])"
    by (simp add: Request_dumps_def)
  with Request_loads_list [OF assms] show ?thesis by simp
qed

theorem Request_loads_dumps_witness:
  "ser_loads example_serializer
     (ser_dumps example_serializer (PList [PInt 1, PDict [], PDict [(PStr ''x'', PInt 42)]])) =
     Inr (PList [PInt 1, PDict [], PDict [(PStr ''x'', PInt 42)]]) \<and>
   Request_dumps \<lparr>version = PInt 1, metadata = PDict [],
       arguments = PDict [(PStr ''x'', PInt 42)]\<rparr> example_serializer = ''echo-v1'' \<and>
   Request_loads
     (Request_dumps \<lparr>version = PInt 1, metadata = PDict [],
        arguments = PDict [(PStr ''x'', PInt 42)]\<rparr> example_serializer) example_serializer =
     Inr \<lparr>version = PInt 1, metadata = PDict [], arguments = PDict [(PStr ''x'', PInt 42)]\<rparr>"
proof -
  have h: "ser_loads example_serializer
     (ser_dumps example_serializer (PList [PInt 1, PDict [], PDict [(PStr ''x'', PInt 42)]])) =
     Inr (PList [PInt 1, PDict [], PDict [(PStr ''x'', PInt 42)]])"
    by (simp add: example_serializer_def example_table_def)
  have d: "Request_dumps \<lparr>version = PInt 1, metadata = PDict [],
       arguments = PDict [(PStr ''x'', PInt 42)]\<rparr> example_serializer = ''echo-v1''"
    by (simp add: Request_dumps_def example_serializer_def example_table_def)
  from Request_loads_dumps [OF h] h d show ?thesis by simp
qed

section \<open>Registering twice\<close>

text \<open>
  Claim C2. The claim is that a second registration of the same method name and
  version keeps the first handler and raises nothing. After a successful
  \<open>register_handler\<close>, a second call with the same method name and version
  raises \<open>AttributeError\<close>; it logs the warning and changes nothing else, so
  the first handler stays in the registry.
\<close>

theorem second_registration_raises:
  assumes "register_handler m ver (Function f) srv = (Inr (), srv1)"
  shows "register_handler m ver (Function g) srv1 =
     (Inl (no_attribute ''NoneType'' ''format''),
      srv1\<lparr>log := log srv1 @ [Warn (Literal ''Duplicate handler registered for [{}/{}]'')]\<rparr>)"
proof (cases "dict_key ver")
  case (Inl e)
  with assms show ?thesis
    by (simp add: register_handler_def split: option.splits)
next
  case (Inr k)
  show ?thesis
  proof (cases "queues srv m")
    case None
    with Inr assms have "srv1 = priv_register_handler m
        (srv\<lparr>queues := (queues srv)(m \<mapsto> [k \<mapsto> f])\<rparr>)"
      by (simp add: register_handler_def)
    then have "queues srv1 m = Some [k \<mapsto> f]"
      by (simp add: priv_register_handler_def)
    with Inr show ?thesis by (simp add: register_handler_def)
  next
    case (Some mv)
    with Inr assms have "mv k = None"
      by (simp add: register_handler_def split: option.splits)
    with Some Inr assms have "srv1 = srv\<lparr>queues := (queues srv)(m \<mapsto> mv(k \<mapsto> f))\<rparr>"
      by (simp add: register_handler_def)
    then have "queues srv1 m = Some (mv(k \<mapsto> f))" by simp
    with Inr show ?thesis by (simp add: register_handler_def)
  qed
qed

theorem second_registration_raises_witness:
  "register_handler ''echo'' (PInt 1) (Function echo) example_server =
     (Inr (), server_with echo) \<and>
   fst (register_handler ''echo'' (PInt 1) (Function (raising ConeyException))
          (server_with echo)) =
     Inl (no_attribute ''NoneType'' ''format'') \<and>
   queues (snd (register_handler ''echo'' (PInt 1) (Function (raising ConeyException))
                  (server_with echo))) =
     [''echo'' \<mapsto> [PInt 1 \<mapsto> echo]]"
proof -
  have h: "register_handler ''echo'' (PInt 1) (Function echo) example_server =
     (Inr (), server_with echo)"
    by (simp add: server_with_def register_handler_def example_server_def)
  show ?thesis
    using second_registration_raises [OF h, of "raising ConeyException"] h
    by (simp add: server_with_queues quoted_def)
qed

end
